theory Spec2Isabelle
  imports Complex_Main
begin

section \<open>JavaScript values, strings and thrown values\<close>

text \<open>
  A JavaScript string is modelled as a \<open>string\<close>: a list of code units, restricted to the
  units below 256. \<open>length\<close> is the source's \<open>.length\<close>, \<open>take n\<close> is \<open>.slice(0, n)\<close>
  and \<open>@\<close> is \<open>+\<close>.

  The values that \<open>JSON.parse\<close> returns and that a caller passes as \<open>params: unknown\<close> are
  the constructors below (symbols and bigints are left out). An object is the list of its
  own properties in insertion order. Finite numbers are the reals they denote. A function
  is opaque: it is kept as the text of its body.
\<close>

datatype jsval =
    JUndefined
  | JNull
  | JBool bool
  | JNumber real
  | JString string
  | JArray "jsval list"
  | JObject "(string \<times> jsval) list"
  | JFunction string

text \<open>
  A thrown value is either an \<open>Error\<close> object (its \<open>name\<close> and its \<open>message\<close>) or some
  other value, kept as the string that \<open>String(v)\<close> gives for it.
\<close>

datatype thrown =
    ErrorObject string string
  | ThrownValue string

text \<open>\<open>String(err)\<close>: for an \<open>Error\<close> this is \<open>Error.prototype.toString\<close>.\<close>

fun String_of_thrown :: "thrown \<Rightarrow> string" where
  "String_of_thrown (ErrorObject name msg) =
     (if name = [] then msg else if msg = [] then name else name @ '': '' @ msg)"
| "String_of_thrown (ThrownValue s) = s"

text \<open>
  What a \<open>throw\<close> inside \<open>execute\<close> can raise, and what a promise can be rejected with: a
  thrown value as above, or a value that has no string conversion, such as the object
  \<open>Object.create(null)\<close>, for which \<open>String(v)\<close> itself throws a \<open>TypeError\<close>.
\<close>

datatype raised =
    Raised thrown
  | Unprintable

text \<open>
  \<open>err instanceof Error ? err.message : String(err)\<close> (line 176): the message, or the
  \<open>TypeError\<close> that \<open>String(err)\<close> throws.
\<close>

fun error_message :: "raised \<Rightarrow> raised + string" where
  "error_message (Raised (ErrorObject name msg)) = Inr msg"
| "error_message (Raised (ThrownValue s)) = Inr s"
| "error_message Unprintable =
     Inl (Raised (ErrorObject ''TypeError'' ''Cannot convert object to primitive value''))"

text \<open>
  \<open>String.prototype.trim\<close> removes white space and line terminators from both ends. Among
  the code units below 256 these are TAB, LF, VT, FF, CR, SPACE and NBSP.
\<close>

definition is_white_space :: "char \<Rightarrow> bool" where
  "is_white_space c =
     (c = CHR 0x09 \<or> c = CHR 0x0A \<or> c = CHR 0x0B \<or> c = CHR 0x0C \<or> c = CHR 0x0D
      \<or> c = CHR 0x20 \<or> c = CHR 0xA0)"

definition trim :: "string \<Rightarrow> string" where
  "trim s = rev (dropWhile is_white_space (rev (dropWhile is_white_space s)))"

text \<open>
  Decimal digits of an integer, as a template literal \<open>`${n}`\<close> prints a number that is
  an integer; \<open>null\<close> prints as \<open>null\<close>.
\<close>

definition digit_char :: "nat \<Rightarrow> char" where
  "digit_char d = ''0123456789'' ! d"

function decimal :: "nat \<Rightarrow> string" where
  "decimal n = (if n < 10 then [digit_char n] else decimal (n div 10) @ [digit_char (n mod 10)])"
  by pat_completeness auto
termination
  by (relation "measure id") auto

declare decimal.simps [simp del]

definition number_text :: "int \<Rightarrow> string" where
  "number_text i = (if 0 \<le> i then decimal (nat i) else CHR ''-'' # decimal (nat (- i)))"

fun string_of_code :: "int option \<Rightarrow> string" where
  "string_of_code None = ''null''"
| "string_of_code (Some i) = number_text i"

text \<open>
  Truthiness and \<open>typeof v === "object"\<close>, as the guards of the source use them.
\<close>

fun truthy :: "jsval \<Rightarrow> bool" where
  "truthy JUndefined = False"
| "truthy JNull = False"
| "truthy (JBool b) = b"
| "truthy (JNumber x) = (x \<noteq> 0)"
| "truthy (JString s) = (s \<noteq> [])"
| "truthy (JArray xs) = True"
| "truthy (JObject kvs) = True"
| "truthy (JFunction f) = True"

fun typeof_object :: "jsval \<Rightarrow> bool" where
  "typeof_object JNull = True"
| "typeof_object (JArray xs) = True"
| "typeof_object (JObject kvs) = True"
| "typeof_object v = False"

fun Array_isArray :: "jsval \<Rightarrow> bool" where
  "Array_isArray (JArray xs) = True"
| "Array_isArray v = False"

text \<open>\<open>isPlainObject\<close> (lines 16-18).\<close>

definition isPlainObject :: "jsval \<Rightarrow> bool" where
  "isPlainObject v = (typeof_object v \<and> v \<noteq> JNull \<and> \<not> Array_isArray v)"

section \<open>The process invoker: \<open>runMcporterCall\<close>\<close>

definition MCPORTER_CALL_TIMEOUT_MS :: nat where
  "MCPORTER_CALL_TIMEOUT_MS = 60000"

definition MCPORTER_MAX_OUTPUT_CHARS :: nat where
  "MCPORTER_MAX_OUTPUT_CHARS = 500000"

text \<open>\<open>resolveMcporterCommand\<close> (lines 20-25), with \<open>process.platform\<close> as its argument.\<close>

definition resolveMcporterCommand :: "string \<Rightarrow> string" where
  "resolveMcporterCommand platform = (if platform \<noteq> ''win32'' then ''mcporter'' else ''mcporter.cmd'')"

text \<open>
  The argument vector (lines 36-40). \<open>if (params.mcporterConfigPath)\<close> tests the string for
  truthiness: it is false exactly for the empty string. The last entry is the text that
  \<open>JSON.stringify\<close> returned for the parameters.
\<close>

definition mcporter_args :: "string \<Rightarrow> string \<Rightarrow> string \<Rightarrow> string list" where
  "mcporter_args mcporterConfigPath toolName json =
     (let args = [];
          args = (if mcporterConfigPath \<noteq> [] then args @ [''--config'', mcporterConfigPath] else args)
      in args @ [''call'', toolName, ''--args'', json])"

text \<open>The value the promise of \<open>runMcporterCall\<close> resolves with: \<open>{stdout, stderr, code}\<close>.\<close>

record call_result =
  res_stdout :: string
  res_stderr :: string
  res_code :: "int option"

text \<open>
  The closure state of one call (lines 42-62): the two buffers, the one truncation flag,
  whether the timeout set at line 54 is still pending (\<open>clearTimeout\<close> and the firing of
  the timer both end that), whether an abort listener was added (lines 88-96), whether
  \<open>child.kill("SIGKILL")\<close> has been called, and the state of the promise: \<open>None\<close> while it
  is pending, \<open>Some r\<close> once \<open>resolve(r)\<close> has been called.
\<close>

record invoker =
  stdout :: string
  stderr :: string
  stdoutTruncated :: bool
  timer :: bool
  listening :: bool
  killed :: bool
  settled :: "call_result option"

text \<open>
  The events the event loop delivers to the handlers of one call. Each handler runs to its
  end before the next event is taken. The calls of \<open>logDebug\<close> and \<open>logError\<close> write a log
  line and change nothing else; they are left out.
\<close>

datatype child_event =
    Stdout_data string
  | Stderr_data string
  | Timer_fired
  | Abort_fired
  | Child_error thrown
  | Child_close "int option"

text \<open>
  \<open>resolve\<close> of a promise: the first call settles it, every later call does nothing
  (ECMAScript promise resolving functions).
\<close>

definition resolve :: "call_result \<Rightarrow> invoker \<Rightarrow> invoker" where
  "resolve r s = (case settled s of None \<Rightarrow> s\<lparr>settled := Some r\<rparr> | Some r0 \<Rightarrow> s)"

text \<open>\<open>onData\<close> (lines 64-81).\<close>

definition onData :: "invoker \<Rightarrow> string \<Rightarrow> bool \<Rightarrow> invoker" where
  "onData s chunk isErr =
     (let buf = (if isErr then stderr s else stdout s);
          next = buf @ chunk
      in if length next > MCPORTER_MAX_OUTPUT_CHARS then
           (let s1 = s\<lparr>stdoutTruncated := True\<rparr>
            in if isErr then s1\<lparr>stderr := take MCPORTER_MAX_OUTPUT_CHARS next\<rparr>
               else s1\<lparr>stdout := take MCPORTER_MAX_OUTPUT_CHARS next\<rparr>)
         else if isErr then s\<lparr>stderr := next\<rparr>
         else s\<lparr>stdout := next\<rparr>)"

text \<open>
  The timer callback (lines 54-61). It runs only while the timeout is pending; \<open>tmo\<close> is
  the constant \<open>MCPORTER_CALL_TIMEOUT_MS\<close>.
\<close>

definition on_timeout :: "nat \<Rightarrow> invoker \<Rightarrow> invoker" where
  "on_timeout tmo s =
     (if timer s then
        resolve \<lparr>res_stdout = [],
                 res_stderr = ''mcporter call timed out after '' @ decimal tmo @ ''ms'',
                 res_code = None\<rparr>
          (s\<lparr>timer := False, killed := True\<rparr>)
      else s)"

text \<open>The abort listener (lines 88-96), present only when a signal was passed.\<close>

definition on_abort :: "invoker \<Rightarrow> invoker" where
  "on_abort s = (if listening s then s\<lparr>killed := True\<rparr> else s)"

text \<open>The \<open>error\<close> handler (lines 98-108).\<close>

definition on_error :: "invoker \<Rightarrow> thrown \<Rightarrow> invoker" where
  "on_error s err =
     resolve \<lparr>res_stdout = [], res_stderr = String_of_thrown err, res_code = None\<rparr>
       (s\<lparr>timer := False\<rparr>)"

text \<open>The \<open>close\<close> handler (lines 110-123).\<close>

definition on_close :: "invoker \<Rightarrow> int option \<Rightarrow> invoker" where
  "on_close s c =
     (let s1 = s\<lparr>timer := False\<rparr>
      in if stdoutTruncated s1 then
           resolve \<lparr>res_stdout = stdout s1,
                    res_stderr = stderr s1 @ [CHR 0x0A] @ ''[output truncated]'',
                    res_code = c\<rparr> s1
         else resolve \<lparr>res_stdout = stdout s1, res_stderr = stderr s1, res_code = c\<rparr> s1)"

fun child_step :: "nat \<Rightarrow> invoker \<Rightarrow> child_event \<Rightarrow> invoker" where
  "child_step tmo s (Stdout_data d) = onData s d False"
| "child_step tmo s (Stderr_data d) = onData s d True"
| "child_step tmo s Timer_fired = on_timeout tmo s"
| "child_step tmo s Abort_fired = on_abort s"
| "child_step tmo s (Child_error err) = on_error s err"
| "child_step tmo s (Child_close c) = on_close s c"

definition run_events :: "nat \<Rightarrow> invoker \<Rightarrow> child_event list \<Rightarrow> invoker" where
  "run_events tmo s evs = foldl (child_step tmo) s evs"

text \<open>
  The state right after the promise executor has run (lines 43-62): the timer is set
  exactly when the timeout constant is positive.
\<close>

definition invoker_init :: "nat \<Rightarrow> bool \<Rightarrow> invoker" where
  "invoker_init tmo abortSignal =
     \<lparr>stdout = [], stderr = [], stdoutTruncated = False, timer = (tmo > 0),
      listening = abortSignal, killed = False, settled = None\<rparr>"

text \<open>
  The host: the built-ins and imports the module calls. \<open>JSON_stringify\<close> and \<open>JSON_parse\<close>
  may throw; \<open>JSON.stringify\<close> calls the \<open>toJSON\<close> methods of the value, so what it throws
  can be any value, while \<open>JSON.parse\<close> throws a \<open>SyntaxError\<close>. \<open>spawn\<close> takes the command
  and the argument vector; it either throws before returning (the promise executor then
  rejects the promise) or returns a child whose events arrive in the given order.
  \<open>jsonResult\<close> is imported from \<open>./tools/common.js\<close>, which is not part of the sources at
  hand: it is taken as a parameter that wraps a payload into a tool result and does not
  throw.
\<close>

record 'r host =
  platform :: string
  JSON_stringify :: "jsval \<Rightarrow> raised + string"
  JSON_parse :: "string \<Rightarrow> thrown + jsval"
  spawn :: "string \<Rightarrow> string list \<Rightarrow> raised + child_event list"
  jsonResult :: "jsval \<Rightarrow> 'r"

datatype 'a promise = Pending | Fulfilled 'a | Rejected raised

record call_params =
  toolName :: string
  params :: jsval
  mcporterConfigPath :: string
  abortSignal :: bool

definition promise_of :: "invoker \<Rightarrow> call_result promise" where
  "promise_of s = (case settled s of None \<Rightarrow> Pending | Some r \<Rightarrow> Fulfilled r)"

text \<open>
  \<open>runMcporterCall\<close> (lines 30-125) with the timeout constant as \<open>tmo\<close>. An exception of
  \<open>JSON.stringify\<close> (line 40) rejects the promise of the async function; an exception of
  \<open>spawn\<close> inside the executor rejects the promise it constructs.
\<close>

definition runMcporterCall_with ::
  "nat \<Rightarrow> 'r host \<Rightarrow> call_params \<Rightarrow> call_result promise" where
  "runMcporterCall_with tmo h p =
     (case JSON_stringify h (params p) of
        Inl err \<Rightarrow> Rejected err
      | Inr json \<Rightarrow>
          (let args = mcporter_args (mcporterConfigPath p) (toolName p) json;
               cmd = resolveMcporterCommand (platform h)
           in case spawn h cmd args of
                Inl err \<Rightarrow> Rejected err
              | Inr evs \<Rightarrow> promise_of (run_events tmo (invoker_init tmo (abortSignal p)) evs)))"

definition runMcporterCall :: "'r host \<Rightarrow> call_params \<Rightarrow> call_result promise" where
  "runMcporterCall = runMcporterCall_with MCPORTER_CALL_TIMEOUT_MS"

section \<open>The result interpreter and \<open>execute\<close>\<close>

text \<open>
  Lines 157-174 of \<open>execute\<close>: what is returned once \<open>runMcporterCall\<close> has resolved.
  \<open>x || y\<close> on strings yields \<open>y\<close> exactly when \<open>x\<close> is empty; \<open>!trimmed\<close> holds exactly
  when \<open>trimmed\<close> is empty. The inner \<open>try\<close> catches what \<open>JSON.parse\<close> throws.
\<close>

definition interpretOutcome :: "'r host \<Rightarrow> call_result \<Rightarrow> 'r" where
  "interpretOutcome h r =
     (if res_code r \<noteq> Some 0 then
        jsonResult h (JObject
          [(''error'', JBool True),
           (''message'', JString (if trim (res_stderr r) \<noteq> [] then trim (res_stderr r)
                                  else ''mcporter call exited with code '' @ string_of_code (res_code r))),
           (''stdout'', JString (take 2000 (res_stdout r)))])
      else
        (let trimmed = trim (res_stdout r)
         in if trimmed = [] then jsonResult h (JObject [(''result'', JNull), (''raw'', JString [])])
            else (case JSON_parse h trimmed of
                    Inr parsed \<Rightarrow> jsonResult h parsed
                  | Inl err \<Rightarrow>
                      jsonResult h (JObject [(''result'', JString trimmed), (''raw'', JString trimmed)]))))"

text \<open>
  \<open>execute\<close> (lines 143-180) of the tool built for \<open>name\<close> and \<open>mcporterConfigPath\<close>. The
  \<open>await\<close> at line 151 stays pending while the promise is pending, and throws into the
  \<open>catch\<close> at line 175 when it is rejected. The \<open>catch\<close> block is not guarded itself: when
  line 176 throws, the promise of \<open>execute\<close> is rejected with what it threw.
\<close>

definition execute_with ::
  "nat \<Rightarrow> 'r host \<Rightarrow> string \<Rightarrow> string \<Rightarrow> jsval \<Rightarrow> bool \<Rightarrow> 'r promise" where
  "execute_with tmo h name configPath ps signal =
     (let paramsRecord = (if isPlainObject ps then ps else JObject [])
      in case runMcporterCall_with tmo h
                \<lparr>toolName = name, params = paramsRecord, mcporterConfigPath = configPath,
                 abortSignal = signal\<rparr> of
           Fulfilled r \<Rightarrow> Fulfilled (interpretOutcome h r)
         | Pending \<Rightarrow> Pending
         | Rejected err \<Rightarrow>
             (case error_message err of
                Inl thrown_again \<Rightarrow> Rejected thrown_again
              | Inr message \<Rightarrow>
                  Fulfilled (jsonResult h (JObject
                    [(''error'', JBool True), (''message'', JString message)]))))"

definition execute :: "'r host \<Rightarrow> string \<Rightarrow> string \<Rightarrow> jsval \<Rightarrow> bool \<Rightarrow> 'r promise" where
  "execute = execute_with MCPORTER_CALL_TIMEOUT_MS"

section \<open>The catalog loader: \<open>loadDefaultClientTools\<close>\<close>

text \<open>
  Reading a property that is neither an array index nor inherited: an own property of an
  object, \<open>undefined\<close> otherwise. The loader reads \<open>function\<close> and \<open>name\<close> only, and only of
  values whose \<open>typeof\<close> is \<open>object\<close>.
\<close>

fun get_prop :: "jsval \<Rightarrow> string \<Rightarrow> jsval" where
  "get_prop (JObject kvs) k = (case map_of kvs k of Some v \<Rightarrow> v | None \<Rightarrow> JUndefined)"
| "get_prop v k = JUndefined"

fun typeof_string :: "jsval \<Rightarrow> bool" where
  "typeof_string (JString s) = True"
| "typeof_string v = False"

text \<open>The callback of \<open>every\<close> (lines 17-23) and \<open>isClientToolDefinitionArray\<close> (lines 13-24).\<close>

definition isClientToolDefinition :: "jsval \<Rightarrow> bool" where
  "isClientToolDefinition item =
     (if \<not> truthy item \<or> \<not> typeof_object item then False
      else (let f = get_prop item ''function''
            in truthy f \<and> typeof_object f \<and> typeof_string (get_prop f ''name'')))"

fun isClientToolDefinitionArray :: "jsval \<Rightarrow> bool" where
  "isClientToolDefinitionArray (JArray items) = list_all isClientToolDefinition items"
| "isClientToolDefinitionArray v = False"

text \<open>
  The module state (lines 10-11), together with the log of the paths handed to
  \<open>fs.readFile\<close>, oldest first.
\<close>

record loader =
  cached :: "jsval list option"
  cachedPath :: "string option"
  reads :: "string list"

text \<open>
  The path (lines 33-36). The two arguments are \<open>cfg.gateway?.defaultClientToolsPath\<close> and
  the environment variable, \<open>None\<close> when undefined.
\<close>

definition tools_path :: "string option \<Rightarrow> string option \<Rightarrow> string" where
  "tools_path cfgPath envPath =
     (let a = (case cfgPath of None \<Rightarrow> [] | Some s \<Rightarrow> trim s)
      in if a \<noteq> [] then a
         else (let b = (case envPath of None \<Rightarrow> [] | Some s \<Rightarrow> trim s)
               in if b \<noteq> [] then b else ''/app/config/default-client-tools.json''))"

text \<open>
  The body of the \<open>try\<close> (lines 41-57), entered with the read already logged: \<open>Inl\<close> is an
  exception of \<open>fs.readFile\<close> or of \<open>JSON.parse\<close>, which leaves the cache untouched. A value
  that passes \<open>isClientToolDefinitionArray\<close> is an array, so the last case is never taken.
\<close>

definition try_load ::
  "(string \<Rightarrow> thrown + string) \<Rightarrow> (string \<Rightarrow> thrown + jsval) \<Rightarrow> string \<Rightarrow> loader
     \<Rightarrow> thrown + (jsval list option \<times> loader)" where
  "try_load readFile parse path st =
     (case readFile path of
        Inl err \<Rightarrow> Inl err
      | Inr raw \<Rightarrow>
          (case parse raw of
             Inl err \<Rightarrow> Inl err
           | Inr parsed \<Rightarrow>
               (if \<not> isClientToolDefinitionArray parsed then
                  Inr (None, st\<lparr>cachedPath := Some path, cached := Some []\<rparr>)
                else
                  (case parsed of
                     JArray items \<Rightarrow>
                       Inr (if length items > 0 then Some items else None,
                            st\<lparr>cachedPath := Some path, cached := Some items\<rparr>)
                   | v \<Rightarrow> Inr (None, st\<lparr>cachedPath := Some path, cached := Some []\<rparr>)))))"

text \<open>
  \<open>loadDefaultClientTools\<close> (lines 30-68): the result (\<open>None\<close> is \<open>undefined\<close>) and the new
  module state.
\<close>

definition loadDefaultClientTools ::
  "(string \<Rightarrow> thrown + string) \<Rightarrow> (string \<Rightarrow> thrown + jsval) \<Rightarrow> string option \<Rightarrow> string option
     \<Rightarrow> loader \<Rightarrow> jsval list option \<times> loader" where
  "loadDefaultClientTools readFile parse cfgPath envPath st =
     (let path = tools_path cfgPath envPath
      in if cachedPath st = Some path \<and> cached st \<noteq> None then
           (case cached st of
              Some c \<Rightarrow> (if length c > 0 then Some c else None, st)
            | None \<Rightarrow> (None, st))
         else
           (let st1 = st\<lparr>reads := reads st @ [path]\<rparr>
            in case try_load readFile parse path st1 of
                 Inr res \<Rightarrow> res
               | Inl err \<Rightarrow> (None, st1\<lparr>cachedPath := Some path, cached := Some []\<rparr>)))"

text \<open>\<open>clearDefaultClientToolsCache\<close> (lines 73-76).\<close>

definition clearDefaultClientToolsCache :: "loader \<Rightarrow> loader" where
  "clearDefaultClientToolsCache st = st\<lparr>cached := None, cachedPath := None\<rparr>"

text \<open>The module state when the module is loaded.\<close>

definition loader_init :: loader where
  "loader_init = \<lparr>cached = None, cachedPath = None, reads = []\<rparr>"

text \<open>
  Two classes of events. The passive ones reach handlers that never call \<open>resolve\<close>; the
  completions reach the three handlers that do.
\<close>

fun is_passive :: "child_event \<Rightarrow> bool" where
  "is_passive (Stdout_data d) = True"
| "is_passive (Stderr_data d) = True"
| "is_passive Abort_fired = True"
| "is_passive e = False"

fun is_completion :: "child_event \<Rightarrow> bool" where
  "is_completion Timer_fired = True"
| "is_completion (Child_error err) = True"
| "is_completion (Child_close c) = True"
| "is_completion e = False"

text \<open>
  A host and a call for the examples: \<open>JSON.stringify\<close> answers \<open>{}\<close>, \<open>JSON.parse\<close> knows the
  one text \<open>{"a":1}\<close> and throws a \<open>SyntaxError\<close> for every other, \<open>jsonResult\<close> hands the
  payload back, and the child process is the argument.
\<close>

definition test_host :: "(string \<Rightarrow> string list \<Rightarrow> raised + child_event list) \<Rightarrow> jsval host" where
  "test_host child =
     \<lparr>platform = ''linux'',
      JSON_stringify = (\<lambda>v. Inr ''{}''),
      JSON_parse = (\<lambda>s. if s = [CHR ''{'', CHR 0x22, CHR ''a'', CHR 0x22, CHR '':'', CHR ''1'', CHR ''}'']
                          then Inr (JObject [(''a'', JNumber 1)])
                          else Inl (ErrorObject ''SyntaxError'' ''Unexpected token'')),
      spawn = child,
      jsonResult = (\<lambda>payload. payload)\<rparr>"

definition test_call :: call_params where
  "test_call = \<lparr>toolName = ''echo'', params = JObject [], mcporterConfigPath = [], abortSignal = False\<rparr>"

text \<open>
  A host whose \<open>JSON.stringify\<close> finds a \<open>toJSON\<close> method on the value and calls it; the
  method is \<open>toJSON() { throw Object.create(null) }\<close>, so the call throws a value that has
  no string conversion. The parameters \<open>throwing_params\<close> are the object with that method.
\<close>

definition throwing_params :: jsval where
  "throwing_params = JObject [(''toJSON'', JFunction ''throw Object.create(null)'')]"

definition toJSON_host :: "jsval host" where
  "toJSON_host =
     (test_host (\<lambda>cmd args. Inr [Child_close (Some 0)]))
       \<lparr>JSON_stringify :=
          (\<lambda>v. if get_prop v ''toJSON'' = JFunction ''throw Object.create(null)''
               then Inl Unprintable else Inr ''{}'')\<rparr>"

text \<open>A child that prints the command line it was started with and exits with code 1.\<close>

definition echo_child :: "string \<Rightarrow> string list \<Rightarrow> raised + child_event list" where
  "echo_child cmd args = Inr [Stdout_data (concat (map (\<lambda>a. a @ ''|'') (cmd # args))), Child_close (Some 1)]"

text \<open>
  Validity of a catalog in the words of the specification: an array of objects, each
  containing a nested \<open>function.name\<close> string. It is compared with
  \<open>isClientToolDefinitionArray\<close> below.
\<close>

definition spec_valid_catalog :: "jsval \<Rightarrow> bool" where
  "spec_valid_catalog v =
     (\<exists>items. v = JArray items \<and>
        (\<forall>item \<in> set items. \<exists>kvs fkvs name.
           item = JObject kvs \<and> map_of kvs ''function'' = Some (JObject fkvs)
           \<and> map_of fkvs ''name'' = Some (JString name)))"

text \<open>
  Files and a parser for the examples: a catalog with one tool, an empty array, an object,
  and no other file; \<open>test_parse\<close> is \<open>JSON.parse\<close> on these three texts and throws on
  every other.
\<close>

definition tools_json :: string where
  "tools_json = ''[{'' @ [CHR 0x22] @ ''function'' @ [CHR 0x22] @ '':{'' @ [CHR 0x22] @ ''name''
                 @ [CHR 0x22] @ '':'' @ [CHR 0x22] @ ''echo'' @ [CHR 0x22] @ ''}}]''"

definition test_readFile :: "string \<Rightarrow> thrown + string" where
  "test_readFile path =
     (if path = ''/tools.json'' then Inr tools_json
      else if path = ''/empty.json'' then Inr ''[]''
      else if path = ''/object.json'' then Inr ''{}''
      else Inl (ErrorObject ''Error'' ''ENOENT: no such file or directory''))"

definition test_parse :: "string \<Rightarrow> thrown + jsval" where
  "test_parse raw =
     (if raw = tools_json then Inr (JArray [JObject [(''function'', JObject [(''name'', JString ''echo'')])]])
      else if raw = ''[]'' then Inr (JArray [])
      else if raw = ''{}'' then Inr (JObject [])
      else Inl (ErrorObject ''SyntaxError'' ''Unexpected token''))"

definition no_files :: "string \<Rightarrow> thrown + string" where
  "no_files path = Inl (ErrorObject ''Error'' ''ENOENT: no such file or directory'')"

section \<open>Lemmas about the handlers\<close>

lemma settled_resolve:
  "settled (resolve r s) = (case settled s of None \<Rightarrow> Some r | Some r0 \<Rightarrow> Some r0)"
  by (simp add: resolve_def split: option.splits)

lemma resolve_fields:
  "stdout (resolve r s) = stdout s" "stderr (resolve r s) = stderr s"
  "stdoutTruncated (resolve r s) = stdoutTruncated s" "timer (resolve r s) = timer s"
  "killed (resolve r s) = killed s" "listening (resolve r s) = listening s"
  by (simp_all add: resolve_def split: option.splits)

lemma onData_fields:
  "settled (onData s d b) = settled s" "timer (onData s d b) = timer s"
  "killed (onData s d b) = killed s" "listening (onData s d b) = listening s"
  by (simp_all add: onData_def Let_def)

lemma step_settled_keep:
  "settled s = Some r \<Longrightarrow> settled (child_step tmo s e) = Some r"
  by (cases e)
     (simp_all add: onData_fields on_timeout_def on_abort_def on_error_def on_close_def
        settled_resolve Let_def)

lemma run_events_Nil: "run_events tmo s [] = s"
  by (simp add: run_events_def)

lemma run_events_Cons: "run_events tmo s (e # evs) = run_events tmo (child_step tmo s e) evs"
  by (simp add: run_events_def)

lemma run_events_append:
  "run_events tmo s (xs @ ys) = run_events tmo (run_events tmo s xs) ys"
  by (simp add: run_events_def)

lemma run_settled_keep:
  "settled s = Some r \<Longrightarrow> settled (run_events tmo s evs) = Some r"
  by (induction evs arbitrary: s) (simp_all add: run_events_Nil run_events_Cons step_settled_keep)

lemma passive_step:
  "is_passive e \<Longrightarrow> settled (child_step tmo s e) = settled s \<and> timer (child_step tmo s e) = timer s"
  by (cases e) (simp_all add: onData_fields on_abort_def)

lemma passive_run:
  "list_all is_passive evs \<Longrightarrow>
     settled (run_events tmo s evs) = settled s \<and> timer (run_events tmo s evs) = timer s"
  by (induction evs arbitrary: s) (simp_all add: run_events_Nil run_events_Cons passive_step)

lemma timer_off_step: "\<not> timer s \<Longrightarrow> \<not> timer (child_step tmo s e)"
  by (cases e)
     (simp_all add: onData_fields on_timeout_def on_abort_def on_error_def on_close_def
        resolve_fields Let_def)


lemma killed_step: "killed s \<Longrightarrow> killed (child_step tmo s e)"
  by (cases e)
     (simp_all add: onData_fields on_timeout_def on_abort_def on_error_def on_close_def
        resolve_fields Let_def)

lemma killed_run: "killed s \<Longrightarrow> killed (run_events tmo s evs)"
  by (induction evs arbitrary: s) (simp_all add: run_events_Nil run_events_Cons killed_step)

lemma init_fields:
  "settled (invoker_init tmo sg) = None" "timer (invoker_init tmo sg) = (tmo > 0)"
  "stdout (invoker_init tmo sg) = []" "stderr (invoker_init tmo sg) = []"
  "stdoutTruncated (invoker_init tmo sg) = False" "killed (invoker_init tmo sg) = False"
  by (simp_all add: invoker_init_def)

lemma timeout_first:
  assumes "settled s = None" "timer s"
  shows "settled (on_timeout tmo s) =
           Some \<lparr>res_stdout = [],
                 res_stderr = ''mcporter call timed out after '' @ decimal tmo @ ''ms'',
                 res_code = None\<rparr>"
    and "killed (on_timeout tmo s)" and "\<not> timer (on_timeout tmo s)"
  using assms by (simp_all add: on_timeout_def settled_resolve resolve_fields)


lemma close_first:
  assumes "settled s = None"
  shows "settled (on_close s c) =
           Some \<lparr>res_stdout = stdout s,
                 res_stderr = (if stdoutTruncated s then stderr s @ [CHR 0x0A] @ ''[output truncated]''
                               else stderr s),
                 res_code = c\<rparr>"
  using assms by (simp add: on_close_def settled_resolve Let_def)

lemma latch_step:
  "settled s \<noteq> None \<or> timer s \<Longrightarrow> is_completion e \<Longrightarrow> settled (child_step tmo s e) \<noteq> None"
  by (cases e)
     (auto simp add: on_timeout_def on_error_def on_close_def settled_resolve Let_def
        split: option.splits)

lemma latch_inv_step:
  "settled s \<noteq> None \<or> timer s \<Longrightarrow>
     settled (child_step tmo s e) \<noteq> None \<or> timer (child_step tmo s e)"
  by (cases e)
     (auto simp add: onData_fields on_timeout_def on_abort_def on_error_def on_close_def
        settled_resolve resolve_fields Let_def split: option.splits)

lemma settled_run_mono:
  "settled s \<noteq> None \<Longrightarrow> settled (run_events tmo s evs) \<noteq> None"
  using run_settled_keep by fastforce

lemma latch_run:
  "settled s \<noteq> None \<or> timer s \<Longrightarrow> list_ex is_completion evs \<Longrightarrow>
     settled (run_events tmo s evs) \<noteq> None"
proof (induction evs arbitrary: s)
  case Nil
  then show ?case by simp
next
  case (Cons e evs)
  show ?case
  proof (cases "is_completion e")
    case True
    with Cons.prems(1) have "settled (child_step tmo s e) \<noteq> None" by (rule latch_step)
    then show ?thesis by (simp add: run_events_Cons settled_run_mono)
  next
    case False
    with Cons.prems(2) have "list_ex is_completion evs" by simp
    moreover from Cons.prems(1)
    have "settled (child_step tmo s e) \<noteq> None \<or> timer (child_step tmo s e)"
      by (rule latch_inv_step)
    ultimately show ?thesis using Cons.IH by (simp add: run_events_Cons)
  qed
qed

lemma onData_stdout_err: "stdout (onData s d True) = stdout s"
  by (simp add: onData_def Let_def)

lemma onData_stderr_out: "stderr (onData s d False) = stderr s"
  by (simp add: onData_def Let_def)

lemma onData_out:
  "stdout (onData s d False) =
     (if length (stdout s @ d) > MCPORTER_MAX_OUTPUT_CHARS
      then take MCPORTER_MAX_OUTPUT_CHARS (stdout s @ d) else stdout s @ d)"
  by (simp add: onData_def Let_def)

lemma onData_err:
  "stderr (onData s d True) =
     (if length (stderr s @ d) > MCPORTER_MAX_OUTPUT_CHARS
      then take MCPORTER_MAX_OUTPUT_CHARS (stderr s @ d) else stderr s @ d)"
  by (simp add: onData_def Let_def)

lemma onData_flag:
  "stdoutTruncated (onData s d b) =
     (stdoutTruncated s \<or> length ((if b then stderr s else stdout s) @ d) > MCPORTER_MAX_OUTPUT_CHARS)"
  by (simp add: onData_def Let_def)

lemma onData_bounded:
  "length (stdout (onData s d False)) \<le> MCPORTER_MAX_OUTPUT_CHARS"
  "length (stderr (onData s d True)) \<le> MCPORTER_MAX_OUTPUT_CHARS"
  by (auto simp add: onData_out onData_err)

lemma bounded_step:
  assumes "length (stdout s) \<le> MCPORTER_MAX_OUTPUT_CHARS \<and> length (stderr s) \<le> MCPORTER_MAX_OUTPUT_CHARS"
  shows "length (stdout (child_step tmo s e)) \<le> MCPORTER_MAX_OUTPUT_CHARS
       \<and> length (stderr (child_step tmo s e)) \<le> MCPORTER_MAX_OUTPUT_CHARS"
  using assms
  by (cases e)
     (simp_all add: onData_bounded onData_stdout_err onData_stderr_out on_timeout_def
        on_abort_def on_error_def on_close_def resolve_fields Let_def)

lemma bounded_run:
  "length (stdout s) \<le> MCPORTER_MAX_OUTPUT_CHARS \<and> length (stderr s) \<le> MCPORTER_MAX_OUTPUT_CHARS \<Longrightarrow>
   length (stdout (run_events tmo s evs)) \<le> MCPORTER_MAX_OUTPUT_CHARS
       \<and> length (stderr (run_events tmo s evs)) \<le> MCPORTER_MAX_OUTPUT_CHARS"
proof (induction evs arbitrary: s)
  case Nil
  then show ?case by (simp add: run_events_Nil)
next
  case (Cons e evs)
  from Cons.prems have "length (stdout (child_step tmo s e)) \<le> MCPORTER_MAX_OUTPUT_CHARS
       \<and> length (stderr (child_step tmo s e)) \<le> MCPORTER_MAX_OUTPUT_CHARS"
    by (rule bounded_step)
  then show ?case unfolding run_events_Cons by (rule Cons.IH)
qed

lemma flag_step: "stdoutTruncated s \<Longrightarrow> stdoutTruncated (child_step tmo s e)"
  by (cases e)
     (simp_all add: onData_flag on_timeout_def on_abort_def on_error_def on_close_def
        resolve_fields Let_def)

lemma flag_run: "stdoutTruncated s \<Longrightarrow> stdoutTruncated (run_events tmo s evs)"
  by (induction evs arbitrary: s) (simp_all add: run_events_Nil run_events_Cons flag_step)



lemma run_call_spawned:
  assumes "JSON_stringify h (params p) = Inr json"
    and "spawn h (resolveMcporterCommand (platform h))
           (mcporter_args (mcporterConfigPath p) (toolName p) json) = Inr evs"
  shows "runMcporterCall_with tmo h p =
           promise_of (run_events tmo (invoker_init tmo (abortSignal p)) evs)"
  using assms by (simp add: runMcporterCall_with_def Let_def)

lemma no_timer_filter:
  "\<not> timer s \<Longrightarrow>
     run_events tmo s (filter (\<lambda>e. e \<noteq> Timer_fired) evs) = run_events tmo s evs"
proof (induction evs arbitrary: s)
  case Nil
  then show ?case by simp
next
  case (Cons e evs)
  show ?case
  proof (cases "e = Timer_fired")
    case True
    with Cons.prems have "child_step tmo s e = s" by (simp add: on_timeout_def)
    with True Cons show ?thesis by (simp add: run_events_Cons)
  next
    case False
    from Cons.prems have "\<not> timer (child_step tmo s e)" by (rule timer_off_step)
    with False Cons.IH show ?thesis by (simp add: run_events_Cons)
  qed
qed

lemma promise_of_settled: "settled s = Some r \<Longrightarrow> promise_of s = Fulfilled r"
  by (simp add: promise_of_def)

lemma timeout_trace:
  assumes "list_all is_passive pre" and "tmo > 0"
  shows "settled (run_events tmo (invoker_init tmo sg) (pre @ Timer_fired # post)) =
           Some \<lparr>res_stdout = [],
                 res_stderr = ''mcporter call timed out after '' @ decimal tmo @ ''ms'',
                 res_code = None\<rparr>"
    and "killed (run_events tmo (invoker_init tmo sg) (pre @ Timer_fired # post))"
proof -
  let ?sp = "run_events tmo (invoker_init tmo sg) pre"
  have pend: "settled ?sp = None" and tm: "timer ?sp"
    using passive_run [OF assms(1), of tmo "invoker_init tmo sg"] assms(2)
    by (simp_all add: init_fields)
  have split: "run_events tmo (invoker_init tmo sg) (pre @ Timer_fired # post)
                 = run_events tmo (on_timeout tmo ?sp) post"
    by (simp add: run_events_append run_events_Cons)
  show "settled (run_events tmo (invoker_init tmo sg) (pre @ Timer_fired # post)) =
           Some \<lparr>res_stdout = [],
                 res_stderr = ''mcporter call timed out after '' @ decimal tmo @ ''ms'',
                 res_code = None\<rparr>"
    unfolding split using timeout_first(1) [OF pend tm] by (rule run_settled_keep)
  show "killed (run_events tmo (invoker_init tmo sg) (pre @ Timer_fired # post))"
    unfolding split using timeout_first(2) [OF pend tm] by (rule killed_run)
qed


lemma close_trace:
  assumes "list_all is_passive pre"
  shows "settled (run_events tmo (invoker_init tmo sg) (pre @ Child_close c # post)) =
           Some \<lparr>res_stdout = stdout (run_events tmo (invoker_init tmo sg) pre),
                 res_stderr =
                   (if stdoutTruncated (run_events tmo (invoker_init tmo sg) pre)
                    then stderr (run_events tmo (invoker_init tmo sg) pre) @ [CHR 0x0A] @ ''[output truncated]''
                    else stderr (run_events tmo (invoker_init tmo sg) pre)),
                 res_code = c\<rparr>"
proof -
  let ?sp = "run_events tmo (invoker_init tmo sg) pre"
  have pend: "settled ?sp = None"
    using passive_run [OF assms(1), of tmo "invoker_init tmo sg"] by (simp add: init_fields)
  have split: "run_events tmo (invoker_init tmo sg) (pre @ Child_close c # post)
                 = run_events tmo (on_close ?sp c) post"
    by (simp add: run_events_append run_events_Cons)
  show ?thesis unfolding split using close_first [OF pend] by (rule run_settled_keep)
qed

lemma isPlainObject_iff: "isPlainObject v \<longleftrightarrow> (\<exists>kvs. v = JObject kvs)"
  by (cases v) (simp_all add: isPlainObject_def)

lemma execute_with_cases:
  "execute_with tmo h name path ps sg =
     (case runMcporterCall_with tmo h
             \<lparr>toolName = name, params = (if isPlainObject ps then ps else JObject []),
              mcporterConfigPath = path, abortSignal = sg\<rparr> of
        Fulfilled r \<Rightarrow> Fulfilled (interpretOutcome h r)
      | Pending \<Rightarrow> Pending
      | Rejected err \<Rightarrow>
          (case error_message err of
             Inl thrown_again \<Rightarrow> Rejected thrown_again
           | Inr message \<Rightarrow>
               Fulfilled (jsonResult h (JObject
                 [(''error'', JBool True), (''message'', JString message)]))))"
  by (simp add: execute_with_def Let_def)

lemma error_message_throws_iff:
  "error_message err = Inl e \<longleftrightarrow>
     err = Unprintable
     \<and> e = Raised (ErrorObject ''TypeError'' ''Cannot convert object to primitive value'')"
  by (cases err rule: error_message.cases) auto

lemma execute_with_rejected:
  assumes "execute_with tmo h name path ps sg = Rejected e"
  shows "runMcporterCall_with tmo h
           \<lparr>toolName = name, params = (if isPlainObject ps then ps else JObject []),
            mcporterConfigPath = path, abortSignal = sg\<rparr> = Rejected Unprintable
       \<and> e = Raised (ErrorObject ''TypeError'' ''Cannot convert object to primitive value'')"
  using assms
  by (auto simp add: execute_with_cases error_message_throws_iff split: promise.splits sum.splits)

lemma run_call_stringify_throws:
  "JSON_stringify h (params p) = Inl err \<Longrightarrow> runMcporterCall_with tmo h p = Rejected err"
  by (simp add: runMcporterCall_with_def)

lemma run_call_spawn_throws:
  "JSON_stringify h (params p) = Inr json \<Longrightarrow>
   spawn h (resolveMcporterCommand (platform h))
     (mcporter_args (mcporterConfigPath p) (toolName p) json) = Inl err \<Longrightarrow>
   runMcporterCall_with tmo h p = Rejected err"
  by (simp add: runMcporterCall_with_def Let_def)

lemma run_call_completes:
  assumes "JSON_stringify h (params p) = Inr json"
    and "spawn h (resolveMcporterCommand (platform h))
           (mcporter_args (mcporterConfigPath p) (toolName p) json) = Inr evs"
    and "tmo > 0" and "list_ex is_completion evs"
  shows "\<exists>r. runMcporterCall_with tmo h p = Fulfilled r"
proof -
  have "settled (invoker_init tmo (abortSignal p)) \<noteq> None \<or> timer (invoker_init tmo (abortSignal p))"
    using assms(3) by (simp add: init_fields)
  then have "settled (run_events tmo (invoker_init tmo (abortSignal p)) evs) \<noteq> None"
    using assms(4) by (rule latch_run)
  then obtain r where "settled (run_events tmo (invoker_init tmo (abortSignal p)) evs) = Some r"
    by auto
  then show ?thesis
    by (simp add: run_call_spawned [OF assms(1) assms(2)] promise_of_settled)
qed


section \<open>Lemmas about the catalog loader\<close>

lemma isClientToolDefinition_iff:
  "isClientToolDefinition item \<longleftrightarrow>
     (\<exists>kvs fkvs name. item = JObject kvs \<and> map_of kvs ''function'' = Some (JObject fkvs)
        \<and> map_of fkvs ''name'' = Some (JString name))"
proof (cases item)
  case (JObject kvs)
  show ?thesis
  proof (cases "map_of kvs ''function''")
    case None
    with JObject show ?thesis by (simp add: isClientToolDefinition_def)
  next
    case (Some f)
    show ?thesis
    proof (cases f)
      case (JObject fkvs)
      show ?thesis
      proof (cases "map_of fkvs ''name''")
        case None
        with \<open>item = JObject kvs\<close> Some JObject show ?thesis
          by (simp add: isClientToolDefinition_def)
      next
        case (Some n)
        with \<open>item = JObject kvs\<close> \<open>map_of kvs ''function'' = Some f\<close> JObject show ?thesis
          by (cases n) (simp_all add: isClientToolDefinition_def)
      qed
    qed (use \<open>item = JObject kvs\<close> Some in \<open>simp_all add: isClientToolDefinition_def\<close>)
  qed
qed (simp_all add: isClientToolDefinition_def)

lemma valid_catalog_iff: "isClientToolDefinitionArray v \<longleftrightarrow> spec_valid_catalog v"
  by (cases v) (simp_all add: spec_valid_catalog_def list_all_iff isClientToolDefinition_iff)

lemma load_hit:
  assumes "cachedPath st = Some (tools_path cfgPath envPath)" and "cached st = Some c"
  shows "loadDefaultClientTools readFile parse cfgPath envPath st = (if length c > 0 then Some c else None, st)"
  using assms by (simp add: loadDefaultClientTools_def Let_def)

lemma load_miss:
  assumes "\<not> (cachedPath st = Some (tools_path cfgPath envPath) \<and> cached st \<noteq> None)"
  shows "loadDefaultClientTools readFile parse cfgPath envPath st =
     (let path = tools_path cfgPath envPath;
          st1 = st\<lparr>reads := reads st @ [path]\<rparr>
      in case readFile path of
           Inl err \<Rightarrow> (None, st1\<lparr>cachedPath := Some path, cached := Some []\<rparr>)
         | Inr raw \<Rightarrow>
             (case parse raw of
                Inl err \<Rightarrow> (None, st1\<lparr>cachedPath := Some path, cached := Some []\<rparr>)
              | Inr (JArray items) \<Rightarrow>
                  (if list_all isClientToolDefinition items
                   then (if items \<noteq> [] then Some items else None,
                         st1\<lparr>cachedPath := Some path, cached := Some items\<rparr>)
                   else (None, st1\<lparr>cachedPath := Some path, cached := Some []\<rparr>))
              | Inr v \<Rightarrow> (None, st1\<lparr>cachedPath := Some path, cached := Some []\<rparr>)))"
proof -
  from assms have m: "(cachedPath st = Some (tools_path cfgPath envPath) \<and> cached st \<noteq> None) = False"
    by simp
  show ?thesis
    unfolding loadDefaultClientTools_def try_load_def Let_def m
    by (simp split: sum.split jsval.split)
qed

lemma load_miss_cached:
  assumes "\<not> (cachedPath st = Some (tools_path cfgPath envPath) \<and> cached st \<noteq> None)"
  shows "cachedPath (snd (loadDefaultClientTools readFile parse cfgPath envPath st))
           = Some (tools_path cfgPath envPath)
       \<and> (\<exists>c. cached (snd (loadDefaultClientTools readFile parse cfgPath envPath st)) = Some c
              \<and> fst (loadDefaultClientTools readFile parse cfgPath envPath st)
                  = (if length c > 0 then Some c else None))"
  unfolding load_miss [OF assms] Let_def
  by (auto split: sum.split jsval.split)

lemma load_result_cached:
  "cachedPath (snd (loadDefaultClientTools readFile parse cfgPath envPath st))
           = Some (tools_path cfgPath envPath)
       \<and> (\<exists>c. cached (snd (loadDefaultClientTools readFile parse cfgPath envPath st)) = Some c
              \<and> fst (loadDefaultClientTools readFile parse cfgPath envPath st)
                  = (if length c > 0 then Some c else None))"
proof (cases "cachedPath st = Some (tools_path cfgPath envPath) \<and> cached st \<noteq> None")
  case True
  then obtain c where c: "cached st = Some c" by auto
  from True have p: "cachedPath st = Some (tools_path cfgPath envPath)" by simp
  show ?thesis unfolding load_hit [OF p c] using p c by simp
next
  case False
  then show ?thesis by (rule load_miss_cached)
qed

lemma load_never_empty_success:
  "fst (loadDefaultClientTools readFile parse cfgPath envPath st) \<noteq> Some []"
proof -
  from load_result_cached [of readFile parse cfgPath envPath st] obtain c
    where "fst (loadDefaultClientTools readFile parse cfgPath envPath st)
             = (if length c > 0 then Some c else None)"
    by blast
  then show ?thesis by (simp split: if_splits)
qed

lemma load_again:
  assumes "tools_path cfgPath' envPath' = tools_path cfgPath envPath"
  shows "loadDefaultClientTools readFile' parse' cfgPath' envPath'
           (snd (loadDefaultClientTools readFile parse cfgPath envPath st))
         = loadDefaultClientTools readFile parse cfgPath envPath st"
proof -
  let ?l = "loadDefaultClientTools readFile parse cfgPath envPath st"
  from load_result_cached [of readFile parse cfgPath envPath st] obtain c
    where p: "cachedPath (snd ?l) = Some (tools_path cfgPath envPath)"
      and c: "cached (snd ?l) = Some c" and r: "fst ?l = (if length c > 0 then Some c else None)"
    by blast
  from p assms have p': "cachedPath (snd ?l) = Some (tools_path cfgPath' envPath')" by simp
  show ?thesis unfolding load_hit [OF p' c] using r by (simp add: prod_eq_iff)
qed

lemma load_miss_reads:
  assumes "\<not> (cachedPath st = Some (tools_path cfgPath envPath) \<and> cached st \<noteq> None)"
  shows "reads (snd (loadDefaultClientTools readFile parse cfgPath envPath st))
           = reads st @ [tools_path cfgPath envPath]"
  unfolding load_miss [OF assms] Let_def
  by (simp split: sum.split jsval.split)

lemma load_miss_absent:
  assumes "\<not> (cachedPath st = Some (tools_path cfgPath envPath) \<and> cached st \<noteq> None)"
  shows "readFile (tools_path cfgPath envPath) = Inl err \<Longrightarrow>
           fst (loadDefaultClientTools readFile parse cfgPath envPath st) = None"
    and "readFile (tools_path cfgPath envPath) = Inr raw \<Longrightarrow> parse raw = Inl err \<Longrightarrow>
           fst (loadDefaultClientTools readFile parse cfgPath envPath st) = None"
    and "readFile (tools_path cfgPath envPath) = Inr raw \<Longrightarrow> parse raw = Inr v \<Longrightarrow>
           \<not> isClientToolDefinitionArray v \<Longrightarrow>
           fst (loadDefaultClientTools readFile parse cfgPath envPath st) = None"
    and "readFile (tools_path cfgPath envPath) = Inr raw \<Longrightarrow> parse raw = Inr (JArray []) \<Longrightarrow>
           fst (loadDefaultClientTools readFile parse cfgPath envPath st) = None
           \<and> cached (snd (loadDefaultClientTools readFile parse cfgPath envPath st)) = Some []"
    and "readFile (tools_path cfgPath envPath) = Inr raw \<Longrightarrow> parse raw = Inr (JArray items) \<Longrightarrow>
           list_all isClientToolDefinition items \<Longrightarrow> items \<noteq> [] \<Longrightarrow>
           fst (loadDefaultClientTools readFile parse cfgPath envPath st) = Some items"
  unfolding load_miss [OF assms] Let_def
  by (auto split: jsval.split)

lemma path_tools: "tools_path (Some '' /tools.json '') None = ''/tools.json''"
  by (simp add: tools_path_def trim_def is_white_space_def)

lemma first_load:
  "loadDefaultClientTools test_readFile test_parse (Some '' /tools.json '') None loader_init =
     (Some [JObject [(''function'', JObject [(''name'', JString ''echo'')])]],
      \<lparr>cached = Some [JObject [(''function'', JObject [(''name'', JString ''echo'')])]],
       cachedPath = Some ''/tools.json'', reads = [''/tools.json'']\<rparr>)"
  by (simp add: loadDefaultClientTools_def try_load_def path_tools loader_init_def test_readFile_def
        test_parse_def isClientToolDefinition_def Let_def)

section \<open>Claims about \<open>execute\<close> and the result interpreter\<close>

text \<open>
  What holds of \<open>execute\<close> for every \<open>params\<close>. An exception of \<open>JSON.stringify\<close> or of
  \<open>spawn\<close> that has a message (an \<open>Error\<close>, or a value with a string conversion) becomes
  the fulfilled failure result \<open>{error: true, message}\<close>. When the child delivers a
  completion (the timer, an error or a close), \<open>execute\<close> is fulfilled with the
  interpretation of an outcome. A \<open>params\<close> that is not a plain object is replaced by the
  empty object. And \<open>execute\<close> is rejected only when \<open>JSON.stringify\<close> or \<open>spawn\<close> threw a
  value that has no string conversion.
\<close>

lemma execute_converts_printable_throws:
  "(JSON_stringify h (if isPlainObject ps then ps else JObject []) = Inl err
        \<and> error_message err = Inr m \<longrightarrow>
        execute h name path ps sg =
          Fulfilled (jsonResult h (JObject [(''error'', JBool True), (''message'', JString m)])))
   \<and> (JSON_stringify h (if isPlainObject ps then ps else JObject []) = Inr json
        \<and> spawn h (resolveMcporterCommand (platform h)) (mcporter_args path name json) = Inl err
        \<and> error_message err = Inr m \<longrightarrow>
        execute h name path ps sg =
          Fulfilled (jsonResult h (JObject [(''error'', JBool True), (''message'', JString m)])))
   \<and> (JSON_stringify h (if isPlainObject ps then ps else JObject []) = Inr json
        \<and> spawn h (resolveMcporterCommand (platform h)) (mcporter_args path name json) = Inr evs
        \<and> list_ex is_completion evs \<longrightarrow>
        (\<exists>r. execute h name path ps sg = Fulfilled (interpretOutcome h r)))
   \<and> (\<not> isPlainObject ps \<longrightarrow> execute h name path ps sg = execute h name path (JObject []) sg)
   \<and> (isPlainObject ps \<longleftrightarrow> (\<exists>kvs. ps = JObject kvs))
   \<and> (execute h name path ps sg = Rejected e \<longrightarrow>
        JSON_stringify h (if isPlainObject ps then ps else JObject []) = Inl Unprintable
        \<or> (\<exists>js. JSON_stringify h (if isPlainObject ps then ps else JObject []) = Inr js
              \<and> spawn h (resolveMcporterCommand (platform h)) (mcporter_args path name js)
                  = Inl Unprintable))"
proof -
  let ?p = "\<lparr>toolName = name, params = (if isPlainObject ps then ps else JObject []),
             mcporterConfigPath = path, abortSignal = sg\<rparr>"
  let ?T = MCPORTER_CALL_TIMEOUT_MS
  have ex: "execute h name path ps sg = execute_with ?T h name path ps sg"
    by (simp add: execute_def)
  have b: "JSON_stringify h (if isPlainObject ps then ps else JObject []) = Inl err
        \<and> error_message err = Inr m \<longrightarrow>
        execute h name path ps sg =
          Fulfilled (jsonResult h (JObject [(''error'', JBool True), (''message'', JString m)]))"
  proof (intro impI, elim conjE)
    assume "JSON_stringify h (if isPlainObject ps then ps else JObject []) = Inl err"
      and m: "error_message err = Inr m"
    then have "JSON_stringify h (params ?p) = Inl err" by simp
    then have "runMcporterCall_with ?T h ?p = Rejected err" by (rule run_call_stringify_throws)
    with m show "execute h name path ps sg =
          Fulfilled (jsonResult h (JObject [(''error'', JBool True), (''message'', JString m)]))"
      unfolding ex by (simp add: execute_with_cases)
  qed
  have c: "JSON_stringify h (if isPlainObject ps then ps else JObject []) = Inr json
        \<and> spawn h (resolveMcporterCommand (platform h)) (mcporter_args path name json) = Inl err
        \<and> error_message err = Inr m \<longrightarrow>
        execute h name path ps sg =
          Fulfilled (jsonResult h (JObject [(''error'', JBool True), (''message'', JString m)]))"
  proof (intro impI, elim conjE)
    assume "JSON_stringify h (if isPlainObject ps then ps else JObject []) = Inr json"
      and "spawn h (resolveMcporterCommand (platform h)) (mcporter_args path name json) = Inl err"
      and m: "error_message err = Inr m"
    then have "JSON_stringify h (params ?p) = Inr json"
      and "spawn h (resolveMcporterCommand (platform h))
             (mcporter_args (mcporterConfigPath ?p) (toolName ?p) json) = Inl err"
      by simp_all
    then have "runMcporterCall_with ?T h ?p = Rejected err" by (rule run_call_spawn_throws)
    with m show "execute h name path ps sg =
          Fulfilled (jsonResult h (JObject [(''error'', JBool True), (''message'', JString m)]))"
      unfolding ex by (simp add: execute_with_cases)
  qed
  have d: "JSON_stringify h (if isPlainObject ps then ps else JObject []) = Inr json
        \<and> spawn h (resolveMcporterCommand (platform h)) (mcporter_args path name json) = Inr evs
        \<and> list_ex is_completion evs \<longrightarrow>
        (\<exists>r. execute h name path ps sg = Fulfilled (interpretOutcome h r))"
  proof (intro impI, elim conjE)
    assume "JSON_stringify h (if isPlainObject ps then ps else JObject []) = Inr json"
      and "spawn h (resolveMcporterCommand (platform h)) (mcporter_args path name json) = Inr evs"
      and cp: "list_ex is_completion evs"
    then have js: "JSON_stringify h (params ?p) = Inr json"
      and sp: "spawn h (resolveMcporterCommand (platform h))
             (mcporter_args (mcporterConfigPath ?p) (toolName ?p) json) = Inr evs"
      by simp_all
    have pos: "?T > 0" by (simp add: MCPORTER_CALL_TIMEOUT_MS_def)
    from run_call_completes [OF js sp pos cp]
    obtain r where "runMcporterCall_with ?T h ?p = Fulfilled r" by blast
    then have "execute h name path ps sg = Fulfilled (interpretOutcome h r)"
      unfolding ex by (simp add: execute_with_cases)
    then show "\<exists>r. execute h name path ps sg = Fulfilled (interpretOutcome h r)" by blast
  qed
  have e: "\<not> isPlainObject ps \<longrightarrow> execute h name path ps sg = execute h name path (JObject []) sg"
    by (simp add: execute_def execute_with_cases isPlainObject_def)
  have f: "isPlainObject ps \<longleftrightarrow> (\<exists>kvs. ps = JObject kvs)"
    by (rule isPlainObject_iff)
  have g: "execute h name path ps sg = Rejected e \<longrightarrow>
        JSON_stringify h (if isPlainObject ps then ps else JObject []) = Inl Unprintable
        \<or> (\<exists>js. JSON_stringify h (if isPlainObject ps then ps else JObject []) = Inr js
              \<and> spawn h (resolveMcporterCommand (platform h)) (mcporter_args path name js)
                  = Inl Unprintable)"
  proof
    assume "execute h name path ps sg = Rejected e"
    then have "execute_with ?T h name path ps sg = Rejected e" by (simp add: ex)
    then have r: "runMcporterCall_with ?T h ?p = Rejected Unprintable"
      using execute_with_rejected by blast
    show "JSON_stringify h (if isPlainObject ps then ps else JObject []) = Inl Unprintable
        \<or> (\<exists>js. JSON_stringify h (if isPlainObject ps then ps else JObject []) = Inr js
              \<and> spawn h (resolveMcporterCommand (platform h)) (mcporter_args path name js)
                  = Inl Unprintable)"
    proof (cases "JSON_stringify h (params ?p)")
      case (Inl x)
      with r show ?thesis by (simp add: runMcporterCall_with_def)
    next
      case (Inr js)
      with r have "spawn h (resolveMcporterCommand (platform h)) (mcporter_args path name js)
                     = Inl Unprintable"
        by (simp add: runMcporterCall_with_def Let_def promise_of_def
              split: sum.splits option.splits)
      with Inr show ?thesis by simp
    qed
  qed
  from b c d e f g show ?thesis by blast
qed

text \<open>
  C1 does not hold of the code at one input. Let \<open>params\<close> be the plain object whose
  \<open>toJSON\<close> method throws \<open>Object.create(null)\<close>. It passes \<open>isPlainObject\<close>, so it is handed
  to \<open>JSON.stringify\<close> at line 40, which calls the method; the thrown value rejects
  \<open>runMcporterCall\<close> and reaches the \<open>catch\<close> at line 175. It is no \<open>Error\<close>, so line 176
  evaluates \<open>String(err)\<close>, which throws a \<open>TypeError\<close> because the value has no string
  conversion. Nothing catches that: \<open>execute\<close> is rejected with the \<open>TypeError\<close>, where C1
  says it resolves with a failure result.
\<close>

theorem execute_rejects_unprintable_throw:
  "isPlainObject throwing_params
   \<and> runMcporterCall toJSON_host
        \<lparr>toolName = ''echo'', params = throwing_params, mcporterConfigPath = [],
         abortSignal = False\<rparr> = Rejected Unprintable
   \<and> execute toJSON_host ''echo'' [] throwing_params False =
       Rejected (Raised (ErrorObject ''TypeError'' ''Cannot convert object to primitive value''))"
  by (simp add: execute_def execute_with_def runMcporterCall_def runMcporterCall_with_def
        isPlainObject_def throwing_params_def toJSON_host_def test_host_def Let_def)

text \<open>
  C2. For an outcome with exit code 0 the interpreter trims stdout. If nothing is left the
  payload is \<open>{result: null, raw: ""}\<close>; if \<open>JSON.parse\<close> accepts the trimmed text the
  payload is the parsed value itself; if \<open>JSON.parse\<close> throws the payload is
  \<open>{result: trimmed, raw: trimmed}\<close>.
\<close>

theorem success_payload:
  assumes "res_code r = Some 0"
  shows "(trim (res_stdout r) = [] \<longrightarrow>
            interpretOutcome h r = jsonResult h (JObject [(''result'', JNull), (''raw'', JString [])]))
       \<and> (trim (res_stdout r) \<noteq> [] \<and> JSON_parse h (trim (res_stdout r)) = Inr v \<longrightarrow>
            interpretOutcome h r = jsonResult h v)
       \<and> (trim (res_stdout r) \<noteq> [] \<and> JSON_parse h (trim (res_stdout r)) = Inl err \<longrightarrow>
            interpretOutcome h r =
              jsonResult h (JObject [(''result'', JString (trim (res_stdout r))),
                                     (''raw'', JString (trim (res_stdout r)))]))"
  using assms by (simp add: interpretOutcome_def Let_def)

theorem success_payload_witness:
  "interpretOutcome (test_host (\<lambda>cmd args. Inr []))
       \<lparr>res_stdout = '' '' @ [CHR ''{'', CHR 0x22, CHR ''a'', CHR 0x22, CHR '':'', CHR ''1'', CHR ''}'', CHR 0x0A],
        res_stderr = ''warn'', res_code = Some 0\<rparr>
     = JObject [(''a'', JNumber 1)]
   \<and> interpretOutcome (test_host (\<lambda>cmd args. Inr []))
       \<lparr>res_stdout = ''not json'', res_stderr = [], res_code = Some 0\<rparr>
     = JObject [(''result'', JString ''not json''), (''raw'', JString ''not json'')]
   \<and> interpretOutcome (test_host (\<lambda>cmd args. Inr []))
       \<lparr>res_stdout = [CHR 0x0A, CHR 0x20], res_stderr = [], res_code = Some 0\<rparr>
     = JObject [(''result'', JNull), (''raw'', JString [])]"
proof -
  let ?h = "test_host (\<lambda>cmd args. Inr [])"
  let ?r1 = "\<lparr>res_stdout = '' '' @ [CHR ''{'', CHR 0x22, CHR ''a'', CHR 0x22, CHR '':'', CHR ''1'', CHR ''}'', CHR 0x0A],
        res_stderr = ''warn'', res_code = Some 0\<rparr>"
  let ?r2 = "\<lparr>res_stdout = ''not json'', res_stderr = [], res_code = Some 0\<rparr>"
  let ?r3 = "\<lparr>res_stdout = [CHR 0x0A, CHR 0x20], res_stderr = [], res_code = Some (0::int)\<rparr>"
  have t1: "trim (res_stdout ?r1) = [CHR ''{'', CHR 0x22, CHR ''a'', CHR 0x22, CHR '':'', CHR ''1'', CHR ''}'']"
    by (simp add: trim_def is_white_space_def)
  have t2: "trim (res_stdout ?r2) = ''not json''"
    by (simp add: trim_def is_white_space_def)
  have t3: "trim (res_stdout ?r3) = []"
    by (simp add: trim_def is_white_space_def)
  have c1: "res_code ?r1 = Some 0" and c2: "res_code ?r2 = Some 0" and c3: "res_code ?r3 = Some 0"
    by simp_all
  from success_payload [OF c1, of ?h "JObject [(''a'', JNumber 1)]"] t1
  have a: "interpretOutcome ?h ?r1 = JObject [(''a'', JNumber 1)]"
    by (simp add: test_host_def)
  from success_payload [OF c2, of ?h _ "ErrorObject ''SyntaxError'' ''Unexpected token''"] t2
  have b: "interpretOutcome ?h ?r2 = JObject [(''result'', JString ''not json''), (''raw'', JString ''not json'')]"
    by (simp add: test_host_def)
  from success_payload [OF c3, of ?h] t3
  have c: "interpretOutcome ?h ?r3 = JObject [(''result'', JNull), (''raw'', JString [])]"
    by (simp add: test_host_def)
  from a b c show ?thesis by simp
qed

text \<open>
  C3. For an outcome whose exit code is not 0 (a nonzero number, or \<open>null\<close>) the result is
  the failure payload \<open>{error: true, message, stdout}\<close>: the message is stderr trimmed
  when that is not empty and \<open>mcporter call exited with code\<close> followed by the code
  otherwise; the partial output, under the key \<open>stdout\<close>, is the first 2000 characters of
  stdout.
\<close>

theorem failure_payload:
  assumes "res_code r \<noteq> Some 0"
  shows "interpretOutcome h r =
           jsonResult h (JObject
             [(''error'', JBool True),
              (''message'', JString (if trim (res_stderr r) \<noteq> [] then trim (res_stderr r)
                                     else ''mcporter call exited with code '' @ string_of_code (res_code r))),
              (''stdout'', JString (take 2000 (res_stdout r)))])
       \<and> length (take 2000 (res_stdout r)) \<le> 2000"
  using assms by (simp add: interpretOutcome_def)

theorem failure_payload_witness:
  "interpretOutcome (test_host (\<lambda>cmd args. Inr []))
       \<lparr>res_stdout = ''half'', res_stderr = ''boom'' @ [CHR 0x0A], res_code = Some 2\<rparr>
     = JObject [(''error'', JBool True), (''message'', JString ''boom''), (''stdout'', JString ''half'')]
   \<and> interpretOutcome (test_host (\<lambda>cmd args. Inr []))
       \<lparr>res_stdout = [], res_stderr = '' '', res_code = Some 137\<rparr>
     = JObject [(''error'', JBool True), (''message'', JString ''mcporter call exited with code 137''),
                (''stdout'', JString [])]
   \<and> interpretOutcome (test_host (\<lambda>cmd args. Inr []))
       \<lparr>res_stdout = [], res_stderr = [], res_code = None\<rparr>
     = JObject [(''error'', JBool True), (''message'', JString ''mcporter call exited with code null''),
                (''stdout'', JString [])]"
proof -
  let ?h = "test_host (\<lambda>cmd args. Inr [])"
  let ?r1 = "\<lparr>res_stdout = ''half'', res_stderr = ''boom'' @ [CHR 0x0A], res_code = Some 2\<rparr>"
  let ?r2 = "\<lparr>res_stdout = [], res_stderr = '' '', res_code = Some 137\<rparr>"
  let ?r3 = "\<lparr>res_stdout = [], res_stderr = [], res_code = None\<rparr>"
  have c1: "res_code ?r1 \<noteq> Some 0" and c2: "res_code ?r2 \<noteq> Some 0" and c3: "res_code ?r3 \<noteq> Some 0"
    by simp_all
  have t1: "trim (res_stderr ?r1) = ''boom''" and t2: "trim (res_stderr ?r2) = []"
    and t3: "trim (res_stderr ?r3) = []"
    by (simp_all add: trim_def is_white_space_def)
  have n: "string_of_code (Some 137) = ''137''"
    by (simp add: number_text_def decimal.simps digit_char_def)
  from failure_payload [OF c1, of ?h] failure_payload [OF c2, of ?h] failure_payload [OF c3, of ?h]
       t1 t2 t3 n
  show ?thesis by (simp add: test_host_def)
qed

section \<open>Claims about the process invoker\<close>

text \<open>
  C4. When the timer fires before any other completion (only data chunks and abort
  notifications came first) and the timeout constant is positive, the handler kills the
  child and the promise is settled, for good, with no exit code, the timeout message as
  stderr and an empty stdout, whatever stdout had been accumulated. For the constant of
  the source, 60000, \<open>runMcporterCall\<close> resolves with that value. With a timeout constant
  of 0 no timer is ever set: a run is the same as the run with every timer event removed.
\<close>

theorem timeout_kills_and_resolves:
  "(list_all is_passive pre \<and> tmo > 0 \<longrightarrow>
      settled (run_events tmo (invoker_init tmo sg) (pre @ Timer_fired # post)) =
        Some \<lparr>res_stdout = [],
              res_stderr = ''mcporter call timed out after '' @ decimal tmo @ ''ms'',
              res_code = None\<rparr>
      \<and> killed (run_events tmo (invoker_init tmo sg) (pre @ Timer_fired # post)))
   \<and> (list_all is_passive pre \<and> JSON_stringify h (params p) = Inr json
        \<and> spawn h (resolveMcporterCommand (platform h))
             (mcporter_args (mcporterConfigPath p) (toolName p) json) = Inr (pre @ Timer_fired # post)
      \<longrightarrow> runMcporterCall h p =
            Fulfilled \<lparr>res_stdout = [], res_stderr = ''mcporter call timed out after 60000ms'',
                       res_code = None\<rparr>)
   \<and> run_events 0 (invoker_init 0 sg) evs =
       run_events 0 (invoker_init 0 sg) (filter (\<lambda>e. e \<noteq> Timer_fired) evs)"
proof -
  have d: "decimal MCPORTER_CALL_TIMEOUT_MS = ''60000''"
    by (simp add: MCPORTER_CALL_TIMEOUT_MS_def decimal.simps digit_char_def)
  have pos: "MCPORTER_CALL_TIMEOUT_MS > 0"
    by (simp add: MCPORTER_CALL_TIMEOUT_MS_def)
  have a: "list_all is_passive pre \<and> tmo > 0 \<longrightarrow>
      settled (run_events tmo (invoker_init tmo sg) (pre @ Timer_fired # post)) =
        Some \<lparr>res_stdout = [],
              res_stderr = ''mcporter call timed out after '' @ decimal tmo @ ''ms'',
              res_code = None\<rparr>
      \<and> killed (run_events tmo (invoker_init tmo sg) (pre @ Timer_fired # post))"
    using timeout_trace by blast
  have b: "list_all is_passive pre \<and> JSON_stringify h (params p) = Inr json
        \<and> spawn h (resolveMcporterCommand (platform h))
             (mcporter_args (mcporterConfigPath p) (toolName p) json) = Inr (pre @ Timer_fired # post)
      \<longrightarrow> runMcporterCall h p =
            Fulfilled \<lparr>res_stdout = [], res_stderr = ''mcporter call timed out after 60000ms'',
                       res_code = None\<rparr>"
  proof (intro impI, elim conjE)
    assume pre: "list_all is_passive pre" and js: "JSON_stringify h (params p) = Inr json"
      and sp: "spawn h (resolveMcporterCommand (platform h))
             (mcporter_args (mcporterConfigPath p) (toolName p) json) = Inr (pre @ Timer_fired # post)"
    have "settled (run_events MCPORTER_CALL_TIMEOUT_MS
             (invoker_init MCPORTER_CALL_TIMEOUT_MS (abortSignal p)) (pre @ Timer_fired # post)) =
           Some \<lparr>res_stdout = [], res_stderr = ''mcporter call timed out after 60000ms'',
                 res_code = None\<rparr>"
      using timeout_trace(1) [OF pre pos, of "abortSignal p" post] by (simp add: d)
    then show "runMcporterCall h p =
            Fulfilled \<lparr>res_stdout = [], res_stderr = ''mcporter call timed out after 60000ms'',
                       res_code = None\<rparr>"
      by (simp add: runMcporterCall_def run_call_spawned [OF js sp] promise_of_settled)
  qed
  have c: "run_events 0 (invoker_init 0 sg) evs =
       run_events 0 (invoker_init 0 sg) (filter (\<lambda>e. e \<noteq> Timer_fired) evs)"
    by (simp add: no_timer_filter init_fields)
  from a b c show ?thesis by blast
qed

theorem timeout_kills_and_resolves_witness:
  "settled (run_events 60000 (invoker_init 60000 False)
             [Stdout_data ''partial'', Timer_fired, Child_close None]) =
     Some \<lparr>res_stdout = [], res_stderr = ''mcporter call timed out after 60000ms'', res_code = None\<rparr>
   \<and> killed (run_events 60000 (invoker_init 60000 False)
             [Stdout_data ''partial'', Timer_fired, Child_close None])
   \<and> runMcporterCall (test_host (\<lambda>cmd args. Inr [Stdout_data ''partial'', Timer_fired, Child_close None])) test_call =
       Fulfilled \<lparr>res_stdout = [], res_stderr = ''mcporter call timed out after 60000ms'',
                  res_code = None\<rparr>
   \<and> settled (run_events 0 (invoker_init 0 False) [Stdout_data ''ok'', Timer_fired, Child_close (Some 0)]) =
       Some \<lparr>res_stdout = ''ok'', res_stderr = [], res_code = Some 0\<rparr>"
proof -
  have d: "decimal 60000 = ''60000''"
    by (simp add: decimal.simps digit_char_def)
  have z: "settled (run_events 0 (invoker_init 0 False) [Stdout_data ''ok'', Child_close (Some 0)]) =
       Some \<lparr>res_stdout = ''ok'', res_stderr = [], res_code = Some 0\<rparr>"
    by (simp add: run_events_def onData_def on_close_def resolve_def invoker_init_def Let_def
          MCPORTER_MAX_OUTPUT_CHARS_def)
  from timeout_kills_and_resolves
         [of "[Stdout_data ''partial'']" 60000 False "[Child_close None]"
             "test_host (\<lambda>cmd args. Inr [Stdout_data ''partial'', Timer_fired, Child_close None])" test_call "''{}''"
             "[Stdout_data ''ok'', Timer_fired, Child_close (Some 0)]"]
  show ?thesis
    by (simp add: d z test_host_def test_call_def)
qed






text \<open>
  C7, as stated, fails on one point: the call has a single truncation flag,
  \<open>stdoutTruncated\<close>, which an overflow of either stream raises. An overflow of stderr
  alone raises it while stdout is empty, and an overflow of stdout alone raises it while
  stderr is empty, so the flag does not tell the streams apart.
\<close>

theorem truncation_flag_shared_counterexample:
  "stdoutTruncated (run_events 60000 (invoker_init 60000 False) [Stderr_data (replicate 500001 CHR ''x'')])
   \<and> stdout (run_events 60000 (invoker_init 60000 False) [Stderr_data (replicate 500001 CHR ''x'')]) = []
   \<and> stdoutTruncated (run_events 60000 (invoker_init 60000 False) [Stdout_data (replicate 500001 CHR ''x'')])
   \<and> stderr (run_events 60000 (invoker_init 60000 False) [Stdout_data (replicate 500001 CHR ''x'')]) = []"
  by (simp add: run_events_def onData_flag onData_stdout_err onData_stderr_out init_fields
        MCPORTER_MAX_OUTPUT_CHARS_def)

text \<open>
  C7, amended. Along every trace both buffers stay within the budget of 500,000
  characters. A chunk that would take a buffer beyond the budget leaves that buffer cut to
  exactly the budget and raises the one truncation flag of the call, which both streams
  share; a chunk that fits is appended whole. Once raised the flag stays raised. A chunk
  on one stream never changes the buffer of the other. On a natural close that comes
  first, with the flag raised, the outcome has the stdout buffer, the stderr buffer
  followed by the truncation marker, and the exit code the process returned.
\<close>

theorem truncation_single_flag:
  "length (stdout (run_events tmo (invoker_init tmo sg) evs)) \<le> MCPORTER_MAX_OUTPUT_CHARS
   \<and> length (stderr (run_events tmo (invoker_init tmo sg) evs)) \<le> MCPORTER_MAX_OUTPUT_CHARS
   \<and> (length (stdout s @ d) > MCPORTER_MAX_OUTPUT_CHARS \<longrightarrow>
        stdout (onData s d False) = take MCPORTER_MAX_OUTPUT_CHARS (stdout s @ d)
        \<and> length (stdout (onData s d False)) = MCPORTER_MAX_OUTPUT_CHARS
        \<and> stdoutTruncated (onData s d False))
   \<and> (length (stderr s @ d) > MCPORTER_MAX_OUTPUT_CHARS \<longrightarrow>
        stderr (onData s d True) = take MCPORTER_MAX_OUTPUT_CHARS (stderr s @ d)
        \<and> length (stderr (onData s d True)) = MCPORTER_MAX_OUTPUT_CHARS
        \<and> stdoutTruncated (onData s d True))
   \<and> (length (stdout s @ d) \<le> MCPORTER_MAX_OUTPUT_CHARS \<longrightarrow> stdout (onData s d False) = stdout s @ d)
   \<and> (length (stderr s @ d) \<le> MCPORTER_MAX_OUTPUT_CHARS \<longrightarrow> stderr (onData s d True) = stderr s @ d)
   \<and> (stdoutTruncated s \<longrightarrow> stdoutTruncated (run_events tmo s evs))
   \<and> stdout (onData s d True) = stdout s
   \<and> stderr (onData s d False) = stderr s
   \<and> (list_all is_passive pre \<and> stdoutTruncated (run_events tmo (invoker_init tmo sg) pre) \<longrightarrow>
        settled (run_events tmo (invoker_init tmo sg) (pre @ Child_close c # post)) =
          Some \<lparr>res_stdout = stdout (run_events tmo (invoker_init tmo sg) pre),
                res_stderr = stderr (run_events tmo (invoker_init tmo sg) pre)
                               @ [CHR 0x0A] @ ''[output truncated]'',
                res_code = c\<rparr>)"
proof -
  have b: "length (stdout (run_events tmo (invoker_init tmo sg) evs)) \<le> MCPORTER_MAX_OUTPUT_CHARS
         \<and> length (stderr (run_events tmo (invoker_init tmo sg) evs)) \<le> MCPORTER_MAX_OUTPUT_CHARS"
    by (rule bounded_run) (simp add: init_fields)
  have o: "length (stdout s @ d) > MCPORTER_MAX_OUTPUT_CHARS \<longrightarrow>
        stdout (onData s d False) = take MCPORTER_MAX_OUTPUT_CHARS (stdout s @ d)
        \<and> length (stdout (onData s d False)) = MCPORTER_MAX_OUTPUT_CHARS
        \<and> stdoutTruncated (onData s d False)"
    by (auto simp add: onData_out onData_flag)
  have e: "length (stderr s @ d) > MCPORTER_MAX_OUTPUT_CHARS \<longrightarrow>
        stderr (onData s d True) = take MCPORTER_MAX_OUTPUT_CHARS (stderr s @ d)
        \<and> length (stderr (onData s d True)) = MCPORTER_MAX_OUTPUT_CHARS
        \<and> stdoutTruncated (onData s d True)"
    by (auto simp add: onData_err onData_flag)
  have k: "(length (stdout s @ d) \<le> MCPORTER_MAX_OUTPUT_CHARS \<longrightarrow> stdout (onData s d False) = stdout s @ d)
         \<and> (length (stderr s @ d) \<le> MCPORTER_MAX_OUTPUT_CHARS \<longrightarrow> stderr (onData s d True) = stderr s @ d)"
    by (simp add: onData_out onData_err)
  have f: "stdoutTruncated s \<longrightarrow> stdoutTruncated (run_events tmo s evs)"
    by (simp add: flag_run)
  have i: "stdout (onData s d True) = stdout s \<and> stderr (onData s d False) = stderr s"
    by (simp add: onData_stdout_err onData_stderr_out)
  have c: "list_all is_passive pre \<and> stdoutTruncated (run_events tmo (invoker_init tmo sg) pre) \<longrightarrow>
        settled (run_events tmo (invoker_init tmo sg) (pre @ Child_close c # post)) =
          Some \<lparr>res_stdout = stdout (run_events tmo (invoker_init tmo sg) pre),
                res_stderr = stderr (run_events tmo (invoker_init tmo sg) pre)
                               @ [CHR 0x0A] @ ''[output truncated]'',
                res_code = c\<rparr>"
    by (simp add: close_trace)
  from b o e k f i c show ?thesis by blast
qed

theorem truncation_single_flag_witness:
  "list_all is_passive [Stderr_data (replicate 500001 CHR ''x''), Stdout_data ''ok'']
   \<and> length (stderr (run_events 60000 (invoker_init 60000 False)
         [Stderr_data (replicate 500001 CHR ''x''), Stdout_data ''ok''])) = 500000
   \<and> stdoutTruncated (run_events 60000 (invoker_init 60000 False)
         [Stderr_data (replicate 500001 CHR ''x''), Stdout_data ''ok''])
   \<and> settled (run_events 60000 (invoker_init 60000 False)
         [Stderr_data (replicate 500001 CHR ''x''), Stdout_data ''ok'', Child_close (Some 0)]) =
       Some \<lparr>res_stdout = ''ok'',
             res_stderr = replicate 500000 CHR ''x'' @ [CHR 0x0A] @ ''[output truncated]'',
             res_code = Some 0\<rparr>"
proof -
  let ?pre = "[Stderr_data (replicate 500001 CHR ''x''), Stdout_data ''ok'']"
  have st: "stdoutTruncated (run_events 60000 (invoker_init 60000 False) ?pre)"
    and out: "stdout (run_events 60000 (invoker_init 60000 False) ?pre) = ''ok''"
    and err: "stderr (run_events 60000 (invoker_init 60000 False) ?pre) = replicate 500000 CHR ''x''"
    by (simp_all add: run_events_def onData_flag onData_out onData_err onData_stdout_err
          onData_stderr_out init_fields MCPORTER_MAX_OUTPUT_CHARS_def)
  have p: "list_all is_passive ?pre" by simp
  from truncation_single_flag
         [of 60000 False ?pre "invoker_init 60000 False" "replicate 500001 CHR ''x''" ?pre "Some 0" "[]"]
       st out err p
  show ?thesis by simp
qed

text \<open>
  C8. The argument vector is \<open>call\<close>, the tool name, \<open>--args\<close> and the JSON text, each an
  entry of its own, preceded by the pair \<open>--config\<close>, path exactly when the configured path
  is not the empty string; it never starts with \<open>--config\<close> followed by an empty entry.
  \<open>runMcporterCall\<close> hands exactly this vector to \<open>spawn\<close>, with the JSON text that
  \<open>JSON.stringify\<close> returned for the parameters.
\<close>

theorem argv_shape:
  "mcporter_args path name json =
     (if path = [] then [''call'', name, ''--args'', json]
      else [''--config'', path, ''call'', name, ''--args'', json])
   \<and> (\<forall>rest. mcporter_args path name json \<noteq> ''--config'' # [] # rest)
   \<and> (JSON_stringify h (params p) = Inr json \<longrightarrow>
        runMcporterCall h p =
          (case spawn h (resolveMcporterCommand (platform h))
                  ((if mcporterConfigPath p = [] then [] else [''--config'', mcporterConfigPath p])
                     @ [''call'', toolName p, ''--args'', json]) of
             Inl err \<Rightarrow> Rejected err
           | Inr evs \<Rightarrow>
               promise_of (run_events MCPORTER_CALL_TIMEOUT_MS
                             (invoker_init MCPORTER_CALL_TIMEOUT_MS (abortSignal p)) evs)))"
  by (simp add: mcporter_args_def runMcporterCall_def runMcporterCall_with_def Let_def)

theorem argv_shape_witness:
  "runMcporterCall (test_host echo_child) test_call =
     Fulfilled \<lparr>res_stdout = ''mcporter|call|echo|--args|{}|'', res_stderr = [], res_code = Some 1\<rparr>
   \<and> runMcporterCall (test_host echo_child) (test_call\<lparr>mcporterConfigPath := ''/etc/m.json''\<rparr>) =
     Fulfilled \<lparr>res_stdout = ''mcporter|--config|/etc/m.json|call|echo|--args|{}|'', res_stderr = [],
                res_code = Some 1\<rparr>"
proof -
  let ?H = "test_host echo_child"
  let ?p2 = "test_call\<lparr>mcporterConfigPath := ''/etc/m.json''\<rparr>"
  have h1: "JSON_stringify ?H (params test_call) = Inr ''{}''"
    and h2: "JSON_stringify ?H (params ?p2) = Inr ''{}''"
    by (simp_all add: test_host_def)
  have ev: "\<And>d. promise_of (run_events MCPORTER_CALL_TIMEOUT_MS
               (invoker_init MCPORTER_CALL_TIMEOUT_MS False) [Stdout_data d, Child_close (Some 1)])
            = Fulfilled \<lparr>res_stdout = (if length d > MCPORTER_MAX_OUTPUT_CHARS then take MCPORTER_MAX_OUTPUT_CHARS d else d),
                 res_stderr = (if length d > MCPORTER_MAX_OUTPUT_CHARS then [CHR 0x0A] @ ''[output truncated]'' else []), res_code = Some 1\<rparr>"
    by (simp add: promise_of_def run_events_def onData_def on_close_def resolve_def invoker_init_def Let_def)
  from argv_shape [of "[]" "''echo''" "''{}''" ?H test_call] h1
  have a: "runMcporterCall ?H test_call =
     Fulfilled \<lparr>res_stdout = ''mcporter|call|echo|--args|{}|'', res_stderr = [], res_code = Some 1\<rparr>"
    by (simp add: test_host_def test_call_def echo_child_def resolveMcporterCommand_def ev
          MCPORTER_MAX_OUTPUT_CHARS_def)
  from argv_shape [of "''/etc/m.json''" "''echo''" "''{}''" ?H ?p2] h2
  have b: "runMcporterCall ?H ?p2 =
     Fulfilled \<lparr>res_stdout = ''mcporter|--config|/etc/m.json|call|echo|--args|{}|'', res_stderr = [],
                res_code = Some 1\<rparr>"
    by (simp add: test_host_def test_call_def echo_child_def resolveMcporterCommand_def ev
          MCPORTER_MAX_OUTPUT_CHARS_def)
  from a b show ?thesis by simp
qed

section \<open>Claims about the catalog loader\<close>

text \<open>
  C9. When the cache does not answer (another path, or nothing cached), a load returns
  absent if \<open>fs.readFile\<close> throws (file missing or unreadable), if \<open>JSON.parse\<close> throws, or
  if the parsed value is not a valid catalog; every exception is caught, so the call
  returns. The source's check, \<open>isClientToolDefinitionArray\<close>, accepts exactly the values
  the specification calls valid: arrays of objects each with a \<open>function\<close> object that has
  a \<open>name\<close> string. No load returns an empty list as a success. A call repeated with the
  same path is served from the cache: it returns what the first call returned and leaves
  the state, with the log of file reads, as it was, whatever the files now hold.
\<close>

theorem loader_absent_when_invalid:
  "(\<not> (cachedPath st = Some (tools_path cfgPath envPath) \<and> cached st \<noteq> None) \<longrightarrow>
      (readFile (tools_path cfgPath envPath) = Inl err \<longrightarrow>
         fst (loadDefaultClientTools readFile parse cfgPath envPath st) = None)
      \<and> (readFile (tools_path cfgPath envPath) = Inr raw \<and> parse raw = Inl err \<longrightarrow>
         fst (loadDefaultClientTools readFile parse cfgPath envPath st) = None)
      \<and> (readFile (tools_path cfgPath envPath) = Inr raw \<and> parse raw = Inr v
           \<and> \<not> spec_valid_catalog v \<longrightarrow>
         fst (loadDefaultClientTools readFile parse cfgPath envPath st) = None))
   \<and> (isClientToolDefinitionArray v \<longleftrightarrow> spec_valid_catalog v)
   \<and> fst (loadDefaultClientTools readFile parse cfgPath envPath st) \<noteq> Some []
   \<and> loadDefaultClientTools readFile' parse' cfgPath envPath
         (snd (loadDefaultClientTools readFile parse cfgPath envPath st))
       = loadDefaultClientTools readFile parse cfgPath envPath st"
proof -
  have a: "\<not> (cachedPath st = Some (tools_path cfgPath envPath) \<and> cached st \<noteq> None) \<longrightarrow>
      (readFile (tools_path cfgPath envPath) = Inl err \<longrightarrow>
         fst (loadDefaultClientTools readFile parse cfgPath envPath st) = None)
      \<and> (readFile (tools_path cfgPath envPath) = Inr raw \<and> parse raw = Inl err \<longrightarrow>
         fst (loadDefaultClientTools readFile parse cfgPath envPath st) = None)
      \<and> (readFile (tools_path cfgPath envPath) = Inr raw \<and> parse raw = Inr v
           \<and> \<not> spec_valid_catalog v \<longrightarrow>
         fst (loadDefaultClientTools readFile parse cfgPath envPath st) = None)"
    using load_miss_absent(1-3) [of st cfgPath envPath readFile _ parse] valid_catalog_iff [of v]
    by blast
  have b: "isClientToolDefinitionArray v \<longleftrightarrow> spec_valid_catalog v"
    by (rule valid_catalog_iff)
  have c: "fst (loadDefaultClientTools readFile parse cfgPath envPath st) \<noteq> Some []"
    by (rule load_never_empty_success)
  have d: "loadDefaultClientTools readFile' parse' cfgPath envPath
         (snd (loadDefaultClientTools readFile parse cfgPath envPath st))
       = loadDefaultClientTools readFile parse cfgPath envPath st"
    by (rule load_again) simp
  from a b c d show ?thesis by blast
qed

theorem loader_absent_when_invalid_witness:
  "fst (loadDefaultClientTools test_readFile test_parse (Some ''/missing.json'') None loader_init) = None
   \<and> fst (loadDefaultClientTools test_readFile test_parse (Some ''/object.json'') None loader_init) = None
   \<and> loadDefaultClientTools no_files test_parse (Some '' /tools.json '') None
         (snd (loadDefaultClientTools test_readFile test_parse (Some '' /tools.json '') None loader_init))
       = (Some [JObject [(''function'', JObject [(''name'', JString ''echo'')])]],
          \<lparr>cached = Some [JObject [(''function'', JObject [(''name'', JString ''echo'')])]],
           cachedPath = Some ''/tools.json'', reads = [''/tools.json'']\<rparr>)"
proof -
  let ?enoent = "ErrorObject ''Error'' ''ENOENT: no such file or directory''"
  have m: "\<And>c. \<not> (cachedPath loader_init = Some (tools_path c None) \<and> cached loader_init \<noteq> None)"
    by (simp add: loader_init_def)
  have p1: "tools_path (Some ''/missing.json'') None = ''/missing.json''"
    and p2: "tools_path (Some ''/object.json'') None = ''/object.json''"
    by (simp_all add: tools_path_def trim_def is_white_space_def)
  have r1: "test_readFile (tools_path (Some ''/missing.json'') None) = Inl ?enoent"
    unfolding p1 by (simp add: test_readFile_def)
  have r2: "test_readFile (tools_path (Some ''/object.json'') None) = Inr ''{}''
          \<and> test_parse ''{}'' = Inr (JObject []) \<and> \<not> spec_valid_catalog (JObject [])"
    unfolding p2 by (simp add: test_readFile_def test_parse_def tools_json_def spec_valid_catalog_def)
  from loader_absent_when_invalid
         [where st = loader_init and cfgPath = "Some ''/missing.json''" and envPath = None
            and readFile = test_readFile and err = ?enoent and parse = test_parse] m r1
  have a: "fst (loadDefaultClientTools test_readFile test_parse (Some ''/missing.json'') None loader_init) = None"
    by blast
  from loader_absent_when_invalid
         [where st = loader_init and cfgPath = "Some ''/object.json''" and envPath = None
            and readFile = test_readFile and raw = "''{}''" and parse = test_parse and v = "JObject []"] m r2
  have b: "fst (loadDefaultClientTools test_readFile test_parse (Some ''/object.json'') None loader_init) = None"
    by blast
  from loader_absent_when_invalid
         [where st = loader_init and cfgPath = "Some '' /tools.json ''" and envPath = None
            and readFile = test_readFile and parse = test_parse and readFile' = no_files
            and parse' = test_parse]
  have c: "loadDefaultClientTools no_files test_parse (Some '' /tools.json '') None
         (snd (loadDefaultClientTools test_readFile test_parse (Some '' /tools.json '') None loader_init))
       = loadDefaultClientTools test_readFile test_parse (Some '' /tools.json '') None loader_init"
    by blast
  from a b c show ?thesis by (simp add: first_load)
qed

text \<open>
  C10. A file that parses to a valid but empty array gives absent, and the empty list is
  what is cached; no load returns an empty list as a success. After every load attempt,
  failed, invalid or successful, the cache holds an answer for the path of that attempt.
  A later call that resolves to the same path returns that first answer and leaves the
  state unchanged, so nothing is read again; a call for another path reads that file;
  and after \<open>clearDefaultClientToolsCache\<close> a call for the same path reads the file again.
\<close>

theorem loader_caches_every_attempt:
  "(\<not> (cachedPath st = Some (tools_path cfgPath envPath) \<and> cached st \<noteq> None)
      \<and> readFile (tools_path cfgPath envPath) = Inr raw \<and> parse raw = Inr (JArray []) \<longrightarrow>
      fst (loadDefaultClientTools readFile parse cfgPath envPath st) = None
      \<and> cached (snd (loadDefaultClientTools readFile parse cfgPath envPath st)) = Some [])
   \<and> fst (loadDefaultClientTools readFile parse cfgPath envPath st) \<noteq> Some []
   \<and> cachedPath (snd (loadDefaultClientTools readFile parse cfgPath envPath st))
       = Some (tools_path cfgPath envPath)
   \<and> cached (snd (loadDefaultClientTools readFile parse cfgPath envPath st)) \<noteq> None
   \<and> (tools_path cfgPath' envPath' = tools_path cfgPath envPath \<longrightarrow>
        loadDefaultClientTools readFile' parse' cfgPath' envPath'
            (snd (loadDefaultClientTools readFile parse cfgPath envPath st))
          = loadDefaultClientTools readFile parse cfgPath envPath st)
   \<and> (tools_path cfgPath' envPath' \<noteq> tools_path cfgPath envPath \<longrightarrow>
        reads (snd (loadDefaultClientTools readFile' parse' cfgPath' envPath'
                      (snd (loadDefaultClientTools readFile parse cfgPath envPath st))))
          = reads (snd (loadDefaultClientTools readFile parse cfgPath envPath st))
              @ [tools_path cfgPath' envPath'])
   \<and> reads (snd (loadDefaultClientTools readFile' parse' cfgPath envPath
                   (clearDefaultClientToolsCache
                      (snd (loadDefaultClientTools readFile parse cfgPath envPath st)))))
       = reads (snd (loadDefaultClientTools readFile parse cfgPath envPath st))
           @ [tools_path cfgPath envPath]"
proof -
  let ?L = "loadDefaultClientTools readFile parse cfgPath envPath st"
  have a: "\<not> (cachedPath st = Some (tools_path cfgPath envPath) \<and> cached st \<noteq> None)
      \<and> readFile (tools_path cfgPath envPath) = Inr raw \<and> parse raw = Inr (JArray []) \<longrightarrow>
      fst ?L = None \<and> cached (snd ?L) = Some []"
    using load_miss_absent(4) [of st cfgPath envPath readFile raw parse] by blast
  have b: "fst ?L \<noteq> Some []" by (rule load_never_empty_success)
  from load_result_cached [of readFile parse cfgPath envPath st]
  have c: "cachedPath (snd ?L) = Some (tools_path cfgPath envPath)" and d: "cached (snd ?L) \<noteq> None"
    by auto
  have e: "tools_path cfgPath' envPath' = tools_path cfgPath envPath \<longrightarrow>
        loadDefaultClientTools readFile' parse' cfgPath' envPath' (snd ?L) = ?L"
    by (simp add: load_again)
  have f: "tools_path cfgPath' envPath' \<noteq> tools_path cfgPath envPath \<longrightarrow>
        reads (snd (loadDefaultClientTools readFile' parse' cfgPath' envPath' (snd ?L)))
          = reads (snd ?L) @ [tools_path cfgPath' envPath']"
  proof
    assume "tools_path cfgPath' envPath' \<noteq> tools_path cfgPath envPath"
    with c have "\<not> (cachedPath (snd ?L) = Some (tools_path cfgPath' envPath') \<and> cached (snd ?L) \<noteq> None)"
      by simp
    then show "reads (snd (loadDefaultClientTools readFile' parse' cfgPath' envPath' (snd ?L)))
          = reads (snd ?L) @ [tools_path cfgPath' envPath']"
      by (rule load_miss_reads)
  qed
  have "\<not> (cachedPath (clearDefaultClientToolsCache (snd ?L)) = Some (tools_path cfgPath envPath)
           \<and> cached (clearDefaultClientToolsCache (snd ?L)) \<noteq> None)"
    by (simp add: clearDefaultClientToolsCache_def)
  then have g: "reads (snd (loadDefaultClientTools readFile' parse' cfgPath envPath
                   (clearDefaultClientToolsCache (snd ?L))))
       = reads (snd ?L) @ [tools_path cfgPath envPath]"
    using load_miss_reads [of "clearDefaultClientToolsCache (snd ?L)" cfgPath envPath readFile' parse']
    by (simp add: clearDefaultClientToolsCache_def)
  from a b c d e f g show ?thesis by blast
qed

theorem loader_caches_every_attempt_witness:
  "loadDefaultClientTools test_readFile test_parse (Some ''/empty.json'') None loader_init
     = (None, \<lparr>cached = Some [], cachedPath = Some ''/empty.json'', reads = [''/empty.json'']\<rparr>)
   \<and> loadDefaultClientTools no_files test_parse None (Some ''/empty.json'')
         \<lparr>cached = Some [], cachedPath = Some ''/empty.json'', reads = [''/empty.json'']\<rparr>
     = (None, \<lparr>cached = Some [], cachedPath = Some ''/empty.json'', reads = [''/empty.json'']\<rparr>)
   \<and> reads (snd (loadDefaultClientTools test_readFile test_parse (Some ''/tools.json'') None
                    \<lparr>cached = Some [], cachedPath = Some ''/empty.json'', reads = [''/empty.json'']\<rparr>))
     = [''/empty.json'', ''/tools.json'']
   \<and> reads (snd (loadDefaultClientTools no_files test_parse (Some ''/empty.json'') None
                    (clearDefaultClientToolsCache
                       \<lparr>cached = Some [], cachedPath = Some ''/empty.json'', reads = [''/empty.json'']\<rparr>)))
     = [''/empty.json'', ''/empty.json'']"
proof -
  let ?st1 = "\<lparr>cached = Some [], cachedPath = Some ''/empty.json'', reads = [''/empty.json'']\<rparr>"
  have p1: "tools_path (Some ''/empty.json'') None = ''/empty.json''"
    and p2: "tools_path None (Some ''/empty.json'') = ''/empty.json''"
    and p3: "tools_path (Some ''/tools.json'') None = ''/tools.json''"
    by (simp_all add: tools_path_def trim_def is_white_space_def)
  have l: "loadDefaultClientTools test_readFile test_parse (Some ''/empty.json'') None loader_init
             = (None, ?st1)"
    by (simp add: loadDefaultClientTools_def try_load_def p1 loader_init_def test_readFile_def
          test_parse_def tools_json_def Let_def)
  note T1 = loader_caches_every_attempt
         [where st = loader_init and cfgPath = "Some ''/empty.json''" and envPath = None
            and readFile = test_readFile and parse = test_parse and raw = "''[]''"
            and cfgPath' = None and envPath' = "Some ''/empty.json''"
            and readFile' = no_files and parse' = test_parse]
  note T2 = loader_caches_every_attempt
         [where st = loader_init and cfgPath = "Some ''/empty.json''" and envPath = None
            and readFile = test_readFile and parse = test_parse and raw = "''[]''"
            and cfgPath' = "Some ''/tools.json''" and envPath' = None
            and readFile' = test_readFile and parse' = test_parse]
  from T1 p1 p2 have a: "loadDefaultClientTools no_files test_parse None (Some ''/empty.json'') ?st1 = (None, ?st1)"
    unfolding l by simp
  from T2 p1 p3 have b: "reads (snd (loadDefaultClientTools test_readFile test_parse (Some ''/tools.json'') None ?st1))
     = [''/empty.json'', ''/tools.json'']"
    unfolding l by simp
  from T1 p1 have c: "reads (snd (loadDefaultClientTools no_files test_parse (Some ''/empty.json'') None
                    (clearDefaultClientToolsCache ?st1))) = [''/empty.json'', ''/empty.json'']"
    unfolding l by simp
  from l a b c show ?thesis by simp
qed

end
